theory Spec2Isabelle
  imports Main
begin

section \<open>Data model of adyen.go\<close>

text \<open>
  A byte slice (\<^verbatim>\<open>[]byte\<close>) and a Go string are both lists of bytes.
\<close>

type_synonym bytes = string

text \<open>
  A value of Go's \<^verbatim>\<open>error\<close> interface. \<open>GoError\<close> stands for an error produced by a
  library call (its message); \<open>apiError\<close> is the error of the response classification
  (status code and body of the response it was made from).
\<close>

datatype error = GoError string | apiError int bytes

text \<open>
  The type \<^verbatim>\<open>environment\<close> is declared outside adyen.go; the file uses its three
  methods only, so an environment is given by what they return.
\<close>

record environment =
  BaseURL :: "string \<Rightarrow> string \<Rightarrow> string"
  ClientURL :: "string \<Rightarrow> string"
  HppURL :: "string \<Rightarrow> string"

text \<open>
  Modelled from the spec: the struct \<^verbatim>\<open>apiCredentials\<close>, declared outside adyen.go.
  ``Credentials: username, password, optional HMAC signing key, environment''. The file
  adyen.go reads the fields \<^verbatim>\<open>Env\<close>, \<^verbatim>\<open>Username\<close> and \<^verbatim>\<open>Password\<close>; the name
  of the field for the signing key is not visible there. An absent key is Go's empty
  string.
\<close>

record apiCredentials =
  Env :: environment
  Username :: string
  Password :: string
  Hmac :: string

text \<open>A \<^verbatim>\<open>*log.Logger\<close> is the address of a logger, or nil.\<close>

type_synonym logger = nat

text \<open>\<^verbatim>\<open>type Adyen struct\<close>, lines 71 to 76.\<close>

record Adyen =
  Credentials :: apiCredentials
  Currency :: string
  MerchantAccount :: string
  Logger :: "logger option"

subsection \<open>The HTTP library\<close>

text \<open>
  \<^verbatim>\<open>http.Request\<close>, as far as adyen.go fills it: method, URL, header and body
  (\<open>None\<close> is the nil body of a GET). A header maps a key to its list of values.
\<close>

record request =
  Method :: string
  URL :: string
  Header :: "string \<rightharpoonup> string list"
  ReqBody :: "bytes option"

text \<open>
  \<^verbatim>\<open>http.Response\<close>, as far as adyen.go reads it: the status code, what reading the
  body to its end gives (the bytes, or the error of the read), and what closing the body
  returns. The error of \<^verbatim>\<open>Close\<close> is assigned to a local variable by a deferred
  function, after the results of the call have been fixed: no function below reads it.
\<close>

record http_Response =
  StatusCode :: int
  BodyStream :: "error + bytes"
  CloseErr :: "error option"

text \<open>\<^verbatim>\<open>http.Client\<close>: only its timeout (in nanoseconds) is modelled; 0 is no timeout.\<close>

record http_Client =
  Timeout :: int

text \<open>
  \<^verbatim>\<open>Response\<close> is declared outside adyen.go; the composite literals at lines 171 and
  225 give its two fields.
\<close>

record Response =
  Response :: http_Response
  Body :: bytes

text \<open>\<^verbatim>\<open>url.Values\<close>: a map from a key to its values, listed; \<open>None\<close> is the nil map.\<close>

type_synonym url_Values = "(string \<times> string list) list option"

text \<open>
  Everything adyen.go calls and does not define, for request entities of type \<open>'ent\<close>
  (Go's \<^verbatim>\<open>interface{}\<close>):
  \<^item> \<open>json_Marshal\<close>: \<^verbatim>\<open>json.Marshal\<close>, the bytes or the error;
  \<^item> \<open>query_Values\<close>: \<^verbatim>\<open>query.Values\<close>, which returns both values and an error;
  \<^item> \<open>Values_Encode\<close>: \<^verbatim>\<open>url.Values.Encode\<close> on a map that is not nil;
  \<^item> \<open>url_Parse\<close>: the error of \<^verbatim>\<open>url.Parse\<close>, the only way \<^verbatim>\<open>http.NewRequest\<close>
    fails for the methods GET and POST;
  \<^item> \<open>base64\<close>: \<^verbatim>\<open>base64.StdEncoding.EncodeToString\<close>;
  \<^item> \<open>client_Do\<close>: \<^verbatim>\<open>http.Client.Do\<close>, the response of the network or the
    transport error;
  \<^item> \<open>handleHTTPError\<close>: the method of \<^verbatim>\<open>Response\<close>, declared outside adyen.go.
\<close>

record 'ent world =
  json_Marshal :: "'ent \<Rightarrow> error + bytes"
  query_Values :: "'ent \<Rightarrow> url_Values \<times> error option"
  Values_Encode :: "(string \<times> string list) list \<Rightarrow> string"
  url_Parse :: "string \<Rightarrow> error option"
  base64 :: "string \<Rightarrow> string"
  client_Do :: "http_Client \<Rightarrow> request \<Rightarrow> error + http_Response"
  handleHTTPError :: "Response \<Rightarrow> error option"

text \<open>
  What a call does besides returning: a line given to a logger, a request handed to
  \<^verbatim>\<open>client.Do\<close>, the body of a response closed.
\<close>

datatype event = Printf logger string | Do http_Client request | Close

subsection \<open>Library functions with a fixed meaning\<close>

text \<open>\<^verbatim>\<open>http.NewRequest(method, url, body)\<close>: a request with an empty header.\<close>

definition http_NewRequest ::
  "'ent world \<Rightarrow> string \<Rightarrow> string \<Rightarrow> bytes option \<Rightarrow> error + request" where
  "http_NewRequest w method url body =
     (case url_Parse w url of
        Some err \<Rightarrow> Inl err
      | None \<Rightarrow> Inr \<lparr>Method = method, URL = url, Header = Map.empty, ReqBody = body\<rparr>)"

text \<open>
  \<^verbatim>\<open>req.Header.Set(key, value)\<close> replaces the values of the key by the one value. The
  library brings the key into its canonical form first; the two keys that adyen.go sets
  are in that form as written.
\<close>

definition Header_Set :: "request \<Rightarrow> string \<Rightarrow> string \<Rightarrow> request" where
  "Header_Set req key v = req\<lparr>Header := (Header req)(key \<mapsto> [v])\<rparr>"

text \<open>\<^verbatim>\<open>req.SetBasicAuth(username, password)\<close>.\<close>

definition SetBasicAuth :: "'ent world \<Rightarrow> request \<Rightarrow> string \<Rightarrow> string \<Rightarrow> request" where
  "SetBasicAuth w req username password =
     Header_Set req ''Authorization'' (''Basic '' @ base64 w (username @ '':'' @ password))"

text \<open>\<^verbatim>\<open>v.Encode()\<close>: the nil map encodes to the empty string.\<close>

definition Encode :: "'ent world \<Rightarrow> url_Values \<Rightarrow> string" where
  "Encode w v = (case v of None \<Rightarrow> [] | Some kvs \<Rightarrow> Values_Encode w kvs)"

text \<open>\<^verbatim>\<open>a.Logger.Printf\<close> behind its nil check.\<close>

definition log_Printf :: "logger option \<Rightarrow> string \<Rightarrow> event list" where
  "log_Printf l msg = (case l of None \<Rightarrow> [] | Some lg \<Rightarrow> [Printf lg msg])"

section \<open>The functions of adyen.go\<close>

definition DefaultCurrency :: string where
  "DefaultCurrency = ''EUR''"

definition APIVersion :: string where
  "APIVersion = ''v25''"

definition PaymentService :: string where
  "PaymentService = ''Payment''"

definition RecurringService :: string where
  "RecurringService = ''Recurring''"

text \<open>
  Modelled from the spec: \<^verbatim>\<open>newCredentials\<close>, called by \<^verbatim>\<open>New\<close> and missing from
  src. ``Credentials: username, password, optional HMAC signing key, environment''.
\<close>

definition newCredentials :: "environment \<Rightarrow> string \<Rightarrow> string \<Rightarrow> apiCredentials" where
  "newCredentials env username password =
     \<lparr>Env = env, Username = username, Password = password, Hmac = []\<rparr>"

text \<open>
  Modelled from the spec: \<^verbatim>\<open>newCredentialsWithHMAC\<close>, called by \<^verbatim>\<open>NewWithHMAC\<close> and
  missing from src. It is \<^verbatim>\<open>newCredentials\<close> with the signing key stored.
\<close>

definition newCredentialsWithHMAC ::
  "environment \<Rightarrow> string \<Rightarrow> string \<Rightarrow> string \<Rightarrow> apiCredentials" where
  "newCredentialsWithHMAC env username password hmac =
     \<lparr>Env = env, Username = username, Password = password, Hmac = hmac\<rparr>"

text \<open>
  \<^verbatim>\<open>New\<close> and \<^verbatim>\<open>NewWithHMAC\<close>: the fields the composite literal leaves out have
  their zero values, the empty string and nil.
\<close>

definition New :: "environment \<Rightarrow> string \<Rightarrow> string \<Rightarrow> Adyen" where
  "New env username password =
     \<lparr>Credentials = newCredentials env username password,
      Currency = DefaultCurrency, MerchantAccount = [], Logger = None\<rparr>"

definition NewWithHMAC :: "environment \<Rightarrow> string \<Rightarrow> string \<Rightarrow> string \<Rightarrow> Adyen" where
  "NewWithHMAC env username password hmac =
     \<lparr>Credentials = newCredentialsWithHMAC env username password hmac,
      Currency = DefaultCurrency, MerchantAccount = [], Logger = None\<rparr>"

definition Adyen_ClientURL :: "Adyen \<Rightarrow> string \<Rightarrow> string" where
  "Adyen_ClientURL a clientID = ClientURL (Env (Credentials a)) clientID"

definition adyenURL :: "Adyen \<Rightarrow> string \<Rightarrow> string \<Rightarrow> string" where
  "adyenURL a service requestType =
     BaseURL (Env (Credentials a)) service APIVersion @ ''/'' @ requestType @ ''/''"

definition createHPPUrl :: "Adyen \<Rightarrow> string \<Rightarrow> string" where
  "createHPPUrl a requestType = HppURL (Env (Credentials a)) requestType"

text \<open>
  The methods with a pointer receiver that assign to a field return the client after the
  call; the ones that only read return what they read.
\<close>

definition AttachLogger :: "logger option \<Rightarrow> Adyen \<Rightarrow> Adyen" where
  "AttachLogger l a = a\<lparr>Logger := l\<rparr>"

definition GetCurrency :: "Adyen \<Rightarrow> string" where
  "GetCurrency a = Currency a"

definition SetCurrency :: "string \<Rightarrow> Adyen \<Rightarrow> Adyen" where
  "SetCurrency currency a = a\<lparr>Currency := currency\<rparr>"

definition GetMerchantAccount :: "Adyen \<Rightarrow> string" where
  "GetMerchantAccount a = MerchantAccount a"

definition SetMerchantAccount :: "string \<Rightarrow> Adyen \<Rightarrow> Adyen" where
  "SetMerchantAccount account a = a\<lparr>MerchantAccount := account\<rparr>"

text \<open>
  \<^verbatim>\<open>execute\<close>, lines 130 to 183. The result is Go's pair of a response pointer and an
  error, each of them possibly nil, together with the events of the call in their order.
  The deferred \<^verbatim>\<open>Close\<close> runs when the function returns, once the response of
  \<^verbatim>\<open>client.Do\<close> is there.
\<close>

definition execute ::
  "'ent world \<Rightarrow> Adyen \<Rightarrow> string \<Rightarrow> string \<Rightarrow> 'ent
     \<Rightarrow> (Response option \<times> error option) \<times> event list" where
  "execute w a service method requestEntity =
     (case json_Marshal w requestEntity of
        Inl err \<Rightarrow> ((None, Some err), [])
      | Inr body \<Rightarrow>
          (let url = adyenURL a service method in
           case http_NewRequest w ''POST'' url (Some body) of
             Inl err \<Rightarrow> ((None, Some err), [])
           | Inr req0 \<Rightarrow>
               (let log1 = log_Printf (Logger a)
                             (''[Request]: '' @ method @ '' '' @ url @ [CHR 0x0A] @ body);
                    req1 = Header_Set req0 ''Content-Type'' ''application/json'';
                    req = SetBasicAuth w req1 (Username (Credentials a))
                            (Password (Credentials a));
                    client = \<lparr>Timeout = 0\<rparr>
                in case client_Do w client req of
                     Inl err \<Rightarrow> ((None, Some err), log1 @ [Do client req])
                   | Inr resp \<Rightarrow>
                       (case BodyStream resp of
                          Inl err \<Rightarrow> ((None, Some err), log1 @ [Do client req, Close])
                        | Inr buf \<Rightarrow>
                            (let log2 = log_Printf (Logger a)
                                          (''[Response]: '' @ method @ '' '' @ url
                                             @ [CHR 0x0A] @ buf);
                                 providerResponse = \<lparr>Response = resp, Body = buf\<rparr>
                             in case handleHTTPError w providerResponse of
                                  Some err \<Rightarrow>
                                    ((None, Some err),
                                     log1 @ [Do client req] @ log2 @ [Close])
                                | None \<Rightarrow>
                                    ((Some providerResponse, None),
                                     log1 @ [Do client req] @ log2 @ [Close]))))))"

text \<open>
  \<^verbatim>\<open>executeHpp\<close>, lines 188 to 231. The error of \<^verbatim>\<open>query.Values\<close> is assigned to
  the blank identifier; the response is returned without \<^verbatim>\<open>handleHTTPError\<close>.
\<close>

definition executeHpp ::
  "'ent world \<Rightarrow> Adyen \<Rightarrow> string \<Rightarrow> 'ent
     \<Rightarrow> (Response option \<times> error option) \<times> event list" where
  "executeHpp w a method requestEntity =
     (let url0 = createHPPUrl a method;
          v = fst (query_Values w requestEntity);
          url = url0 @ ''?'' @ Encode w v
      in case http_NewRequest w ''GET'' url None of
           Inl err \<Rightarrow> ((None, Some err), [])
         | Inr req \<Rightarrow>
             (let log1 = log_Printf (Logger a) (''[Request]: '' @ method @ '' '' @ url);
                  client = \<lparr>Timeout = 0\<rparr>
              in case client_Do w client req of
                   Inl err \<Rightarrow> ((None, Some err), log1 @ [Do client req])
                 | Inr resp \<Rightarrow>
                     (case BodyStream resp of
                        Inl err \<Rightarrow> ((None, Some err), log1 @ [Do client req, Close])
                      | Inr buf \<Rightarrow>
                          (let log2 = log_Printf (Logger a)
                                        (''[Response]: '' @ method @ '' '' @ url
                                           @ [CHR 0x0A] @ buf);
                               providerResponse = \<lparr>Response = resp, Body = buf\<rparr>
                           in ((Some providerResponse, None),
                               log1 @ [Do client req] @ log2 @ [Close])))))"

text \<open>The requests of a list of events, each with the client it was handed to.\<close>

fun calls_Do :: "event list \<Rightarrow> (http_Client \<times> request) list" where
  "calls_Do [] = []"
| "calls_Do (Do c r # es) = (c, r) # calls_Do es"
| "calls_Do (Printf l msg # es) = calls_Do es"
| "calls_Do (Close # es) = calls_Do es"

text \<open>
  Modelled from the spec: \<^verbatim>\<open>handleHTTPError\<close>, the method of \<^verbatim>\<open>Response\<close> that
  \<^verbatim>\<open>execute\<close> calls, missing from src. ``Response error classification correctly
  flags non-2xx statuses as failures.'' The functions above take the classification
  from the world; this is the one the specification describes.
\<close>

definition Response_handleHTTPError :: "Response \<Rightarrow> error option" where
  "Response_handleHTTPError r =
     (if 200 \<le> StatusCode (Response r) \<and> StatusCode (Response r) \<le> 299 then None
      else Some (apiError (StatusCode (Response r)) (Body r)))"

subsection \<open>Sequences of calls on one client\<close>

text \<open>
  The operations of a client that the properties below speak of, and the client after
  each of them. A method that assigns to no field of its receiver leaves the client as
  it was; what it returns is kept beside the client.
\<close>

datatype 'ent operation =
    Op_AttachLogger "logger option"
  | Op_GetCurrency
  | Op_SetCurrency string
  | Op_GetMerchantAccount
  | Op_SetMerchantAccount string
  | Op_execute string string 'ent
  | Op_executeHpp string 'ent

datatype outcome =
    Done
  | Returned string
  | Called "(Response option \<times> error option) \<times> event list"

fun perform :: "'ent world \<Rightarrow> 'ent operation \<Rightarrow> Adyen \<Rightarrow> Adyen \<times> outcome" where
  "perform w (Op_AttachLogger l) a = (AttachLogger l a, Done)"
| "perform w Op_GetCurrency a = (a, Returned (GetCurrency a))"
| "perform w (Op_SetCurrency c) a = (SetCurrency c a, Done)"
| "perform w Op_GetMerchantAccount a = (a, Returned (GetMerchantAccount a))"
| "perform w (Op_SetMerchantAccount m) a = (SetMerchantAccount m a, Done)"
| "perform w (Op_execute service method ent) a = (a, Called (execute w a service method ent))"
| "perform w (Op_executeHpp method ent) a = (a, Called (executeHpp w a method ent))"

fun run :: "'ent world \<Rightarrow> 'ent operation list \<Rightarrow> Adyen \<Rightarrow> Adyen \<times> outcome list" where
  "run w [] a = (a, [])"
| "run w (x # xs) a =
     (case perform w x a of (a', r) \<Rightarrow> (case run w xs a' of (a'', rs) \<Rightarrow> (a'', r # rs)))"

subsection \<open>The requests of the two paths\<close>

text \<open>The request that \<^verbatim>\<open>execute\<close> has built when it calls \<^verbatim>\<open>client.Do\<close>.\<close>

abbreviation execute_request ::
  "'ent world \<Rightarrow> Adyen \<Rightarrow> string \<Rightarrow> string \<Rightarrow> bytes \<Rightarrow> request" where
  "execute_request w a service method body \<equiv>
     \<lparr>Method = ''POST'', URL = adyenURL a service method,
      Header = [''Content-Type'' \<mapsto> [''application/json''],
                ''Authorization'' \<mapsto>
                  [''Basic '' @ base64 w (Username (Credentials a) @ '':''
                     @ Password (Credentials a))]],
      ReqBody = Some body\<rparr>"

text \<open>The URL and the request of \<^verbatim>\<open>executeHpp\<close>.\<close>

abbreviation executeHpp_url :: "'ent world \<Rightarrow> Adyen \<Rightarrow> string \<Rightarrow> 'ent \<Rightarrow> string" where
  "executeHpp_url w a method ent \<equiv>
     createHPPUrl a method @ ''?'' @ Encode w (fst (query_Values w ent))"

abbreviation executeHpp_request :: "'ent world \<Rightarrow> Adyen \<Rightarrow> string \<Rightarrow> 'ent \<Rightarrow> request" where
  "executeHpp_request w a method ent \<equiv>
     \<lparr>Method = ''GET'', URL = executeHpp_url w a method ent,
      Header = Map.empty, ReqBody = None\<rparr>"

subsection \<open>Sample data\<close>

text \<open>
  An environment, a world and a client to evaluate the functions on. The entities of the
  sample world are strings; the entity \<open>''chan''\<close> is one that neither \<^verbatim>\<open>json.Marshal\<close>
  nor \<^verbatim>\<open>query.Values\<close> accepts. Every request is answered with the given status code
  and the body \<open>''{}''\<close>.
\<close>

definition sample_env :: environment where
  "sample_env =
     \<lparr>BaseURL = (\<lambda>service version.
         ''https://pal-test.adyen.com/pal/servlet/'' @ service @ ''/'' @ version),
      ClientURL = (\<lambda>clientID. ''https://test.adyen.com/hpp/cse/js/'' @ clientID @ ''.shtml''),
      HppURL = (\<lambda>request. ''https://test.adyen.com/hpp/'' @ request @ ''.shtml'')\<rparr>"

definition sample_world :: "int \<Rightarrow> string world" where
  "sample_world status =
     \<lparr>json_Marshal = (\<lambda>e. if e = ''chan'' then Inl (GoError ''json: unsupported type'')
                          else Inr (''{reference:'' @ e @ ''}'')),
      query_Values = (\<lambda>e. if e = ''chan''
                          then (None, Some (GoError ''query: Values() expects struct input''))
                          else (Some [(''reference'', [e])], None)),
      Values_Encode = (\<lambda>kvs. concat (map (\<lambda>(k, vs). k @ ''='' @ concat vs) kvs)),
      url_Parse = (\<lambda>u. if CHR 0x7F \<in> set u
                       then Some (GoError ''net/url: invalid control character in URL'')
                       else None),
      base64 = (\<lambda>s. if s = ''un:pw'' then ''dW46cHc='' else []),
      client_Do = (\<lambda>c r. Inr \<lparr>StatusCode = status, BodyStream = Inr ''{}'', CloseErr = None\<rparr>),
      handleHTTPError = Response_handleHTTPError\<rparr>"

definition sample_client :: Adyen where
  "sample_client = New sample_env ''un'' ''pw''"

text \<open>
  The sample world with another \<^verbatim>\<open>query.Values\<close>: it fails on every entity, and
  returns with its error the values it had encoded before the failure, as the library
  does when the encoder of a later field fails.
\<close>

definition partial_world :: "string world" where
  "partial_world =
     (sample_world 200)
       \<lparr>query_Values := (\<lambda>e. (Some [(''merchantReference'', [e])],
                                Some (GoError ''query: encoder of a field failed'')))\<rparr>"

section \<open>Properties\<close>

lemma calls_Do_append: "calls_Do (xs @ ys) = calls_Do xs @ calls_Do ys"
  by (induction xs rule: calls_Do.induct) simp_all

lemma calls_Do_log_Printf: "calls_Do (log_Printf l msg) = []"
  by (cases l) (simp_all add: log_Printf_def)

lemma execute_cases [case_names marshal url transport read status success]:
  obtains
    e where "json_Marshal w ent = Inl e"
      and "execute w a service method ent = ((None, Some e), [])"
  | body e where "json_Marshal w ent = Inr body"
      and "url_Parse w (adyenURL a service method) = Some e"
      and "execute w a service method ent = ((None, Some e), [])"
  | body e l where "json_Marshal w ent = Inr body"
      and "url_Parse w (adyenURL a service method) = None"
      and "client_Do w \<lparr>Timeout = 0\<rparr> (execute_request w a service method body) = Inl e"
      and "execute w a service method ent =
             ((None, Some e),
              log_Printf (Logger a) l
                @ [Do \<lparr>Timeout = 0\<rparr> (execute_request w a service method body)])"
  | body resp e l where "json_Marshal w ent = Inr body"
      and "url_Parse w (adyenURL a service method) = None"
      and "client_Do w \<lparr>Timeout = 0\<rparr> (execute_request w a service method body) = Inr resp"
      and "BodyStream resp = Inl e"
      and "execute w a service method ent =
             ((None, Some e),
              log_Printf (Logger a) l
                @ [Do \<lparr>Timeout = 0\<rparr> (execute_request w a service method body), Close])"
  | body resp buf e l l' where "json_Marshal w ent = Inr body"
      and "url_Parse w (adyenURL a service method) = None"
      and "client_Do w \<lparr>Timeout = 0\<rparr> (execute_request w a service method body) = Inr resp"
      and "BodyStream resp = Inr buf"
      and "handleHTTPError w \<lparr>Response = resp, Body = buf\<rparr> = Some e"
      and "execute w a service method ent =
             ((None, Some e),
              log_Printf (Logger a) l
                @ [Do \<lparr>Timeout = 0\<rparr> (execute_request w a service method body)]
                @ log_Printf (Logger a) l' @ [Close])"
  | body resp buf l l' where "json_Marshal w ent = Inr body"
      and "url_Parse w (adyenURL a service method) = None"
      and "client_Do w \<lparr>Timeout = 0\<rparr> (execute_request w a service method body) = Inr resp"
      and "BodyStream resp = Inr buf"
      and "handleHTTPError w \<lparr>Response = resp, Body = buf\<rparr> = None"
      and "execute w a service method ent =
             ((Some \<lparr>Response = resp, Body = buf\<rparr>, None),
              log_Printf (Logger a) l
                @ [Do \<lparr>Timeout = 0\<rparr> (execute_request w a service method body)]
                @ log_Printf (Logger a) l' @ [Close])"
proof (cases "json_Marshal w ent")
  case (Inl e)
  then have "execute w a service method ent = ((None, Some e), [])"
    by (simp add: execute_def)
  with Inl show ?thesis by (rule that(1))
next
  case m: (Inr body)
  show ?thesis
  proof (cases "url_Parse w (adyenURL a service method)")
    case (Some e)
    with m have "execute w a service method ent = ((None, Some e), [])"
      by (simp add: execute_def http_NewRequest_def)
    with m Some show ?thesis by (rule that(2))
  next
    case u: None
    show ?thesis
    proof (cases "client_Do w \<lparr>Timeout = 0\<rparr> (execute_request w a service method body)")
      case (Inl e)
      with m u show ?thesis
        by (intro that(3) [of body e "''[Request]: '' @ method @ '' '' @ adyenURL a service method @ [CHR 0x0A] @ body"]; simp add: execute_def http_NewRequest_def Header_Set_def SetBasicAuth_def Let_def)
    next
      case d: (Inr resp)
      show ?thesis
      proof (cases "BodyStream resp")
        case (Inl e)
        with m u d show ?thesis
          by (intro that(4) [of body resp e "''[Request]: '' @ method @ '' '' @ adyenURL a service method @ [CHR 0x0A] @ body"]; simp add: execute_def http_NewRequest_def Header_Set_def SetBasicAuth_def Let_def)
      next
        case b: (Inr buf)
        show ?thesis
        proof (cases "handleHTTPError w \<lparr>Response = resp, Body = buf\<rparr>")
          case None
          with m u d b show ?thesis
            by (intro that(6) [of body resp buf "''[Request]: '' @ method @ '' '' @ adyenURL a service method @ [CHR 0x0A] @ body" "''[Response]: '' @ method @ '' '' @ adyenURL a service method @ [CHR 0x0A] @ buf"]; simp add: execute_def http_NewRequest_def Header_Set_def SetBasicAuth_def Let_def)
        next
          case (Some e)
          with m u d b show ?thesis
            by (intro that(5) [of body resp buf e "''[Request]: '' @ method @ '' '' @ adyenURL a service method @ [CHR 0x0A] @ body" "''[Response]: '' @ method @ '' '' @ adyenURL a service method @ [CHR 0x0A] @ buf"]; simp add: execute_def http_NewRequest_def Header_Set_def SetBasicAuth_def Let_def)
        qed
      qed
    qed
  qed
qed

lemma executeHpp_cases [case_names url transport read success]:
  obtains
    e where "url_Parse w (executeHpp_url w a method ent) = Some e"
      and "executeHpp w a method ent = ((None, Some e), [])"
  | e l where "url_Parse w (executeHpp_url w a method ent) = None"
      and "client_Do w \<lparr>Timeout = 0\<rparr> (executeHpp_request w a method ent) = Inl e"
      and "executeHpp w a method ent =
             ((None, Some e),
              log_Printf (Logger a) l
                @ [Do \<lparr>Timeout = 0\<rparr> (executeHpp_request w a method ent)])"
  | resp e l where "url_Parse w (executeHpp_url w a method ent) = None"
      and "client_Do w \<lparr>Timeout = 0\<rparr> (executeHpp_request w a method ent) = Inr resp"
      and "BodyStream resp = Inl e"
      and "executeHpp w a method ent =
             ((None, Some e),
              log_Printf (Logger a) l
                @ [Do \<lparr>Timeout = 0\<rparr> (executeHpp_request w a method ent), Close])"
  | resp buf l l' where "url_Parse w (executeHpp_url w a method ent) = None"
      and "client_Do w \<lparr>Timeout = 0\<rparr> (executeHpp_request w a method ent) = Inr resp"
      and "BodyStream resp = Inr buf"
      and "executeHpp w a method ent =
             ((Some \<lparr>Response = resp, Body = buf\<rparr>, None),
              log_Printf (Logger a) l
                @ [Do \<lparr>Timeout = 0\<rparr> (executeHpp_request w a method ent)]
                @ log_Printf (Logger a) l' @ [Close])"
proof (cases "url_Parse w (executeHpp_url w a method ent)")
  case (Some e)
  then have "executeHpp w a method ent = ((None, Some e), [])"
    by (simp add: executeHpp_def http_NewRequest_def)
  with Some show ?thesis by (rule that(1))
next
  case u: None
  show ?thesis
  proof (cases "client_Do w \<lparr>Timeout = 0\<rparr> (executeHpp_request w a method ent)")
    case (Inl e)
    with u show ?thesis
      by (intro that(2)
            [of e "''[Request]: '' @ method @ '' '' @ executeHpp_url w a method ent"];
          simp add: executeHpp_def http_NewRequest_def Let_def)
  next
    case d: (Inr resp)
    show ?thesis
    proof (cases "BodyStream resp")
      case (Inl e)
      with u d show ?thesis
        by (intro that(3)
              [of resp e "''[Request]: '' @ method @ '' '' @ executeHpp_url w a method ent"];
            simp add: executeHpp_def http_NewRequest_def Let_def)
    next
      case (Inr buf)
      with u d show ?thesis
        by (intro that(4)
              [of resp buf "''[Request]: '' @ method @ '' '' @ executeHpp_url w a method ent"
                 "''[Response]: '' @ method @ '' '' @ executeHpp_url w a method ent
                    @ [CHR 0x0A] @ buf"];
            simp add: executeHpp_def http_NewRequest_def Let_def)
    qed
  qed
qed


lemma perform_Credentials: "Credentials (fst (perform w x a)) = Credentials a"
  by (cases x) (simp_all add: AttachLogger_def SetCurrency_def SetMerchantAccount_def)

lemma executeHpp_query_Values_cong:
  assumes "fst (query_Values w' ent) = fst (query_Values w ent)"
    and "Values_Encode w' = Values_Encode w" and "url_Parse w' = url_Parse w"
    and "client_Do w' = client_Do w"
  shows "executeHpp w' a method ent = executeHpp w a method ent"
  unfolding executeHpp_def http_NewRequest_def Encode_def assms by (rule refl)

subsection \<open>Response classification\<close>

text \<open>
  Whatever the classification, a response that \<^verbatim>\<open>execute\<close> returns is one that the
  classification has let through; under the classification of the specification its
  status is 2xx. \<^verbatim>\<open>executeHpp\<close> returns every response it could read.
\<close>

lemma executeHpp_returns_any_status:
  assumes "url_Parse w (createHPPUrl a method @ ''?'' @ Encode w (fst (query_Values w ent))) = None"
    and "client_Do w \<lparr>Timeout = 0\<rparr>
           \<lparr>Method = ''GET'',
            URL = createHPPUrl a method @ ''?'' @ Encode w (fst (query_Values w ent)),
            Header = Map.empty, ReqBody = None\<rparr> = Inr resp"
    and "BodyStream resp = Inr buf"
  shows "fst (executeHpp w a method ent) = (Some \<lparr>Response = resp, Body = buf\<rparr>, None)"
  using assms by (simp add: executeHpp_def http_NewRequest_def Let_def)

lemma execute_returns_classified:
  "fst (fst (execute w a service method ent)) = Some r \<Longrightarrow> handleHTTPError w r = None"
  by (auto simp: execute_def http_NewRequest_def Let_def
      split: sum.splits option.splits)

lemma execute_flags_non_2xx:
  assumes "handleHTTPError w = Response_handleHTTPError"
    and "fst (fst (execute w a service method ent)) = Some r"
  shows "200 \<le> StatusCode (Response r) \<and> StatusCode (Response r) \<le> 299"
  using execute_returns_classified [OF assms(2)] assms(1)
  by (simp add: Response_handleHTTPError_def split: if_splits)

text \<open>
  C1. A response whose status is not 2xx is to give an error on both paths, \<^verbatim>\<open>execute\<close>
  and \<^verbatim>\<open>executeHpp\<close>. It does on the first and does not on the second: on a response
  with status 500 and a readable body, \<^verbatim>\<open>execute\<close> returns the error of the
  classification and no response, whereas \<^verbatim>\<open>executeHpp\<close> returns the response and no
  error.
\<close>

theorem executeHpp_returns_response_for_status_500:
  "fst (execute (sample_world 500) sample_client PaymentService ''authorise'' ''ref1'')
     = (None, Some (apiError 500 ''{}''))
   \<and> fst (executeHpp (sample_world 500) sample_client ''directory'' ''ref1'')
     = (Some \<lparr>Response = \<lparr>StatusCode = 500, BodyStream = Inr ''{}'', CloseErr = None\<rparr>,
              Body = ''{}''\<rparr>, None)"
  by (simp add: execute_def executeHpp_def sample_world_def sample_client_def New_def sample_env_def
      http_NewRequest_def Response_handleHTTPError_def Let_def adyenURL_def createHPPUrl_def
      newCredentials_def Encode_def PaymentService_def APIVersion_def)

subsection \<open>Configuration\<close>

text \<open>
  C3. For every string \<open>c\<close> and every string \<open>m\<close>, \<^verbatim>\<open>GetCurrency\<close> after
  \<^verbatim>\<open>SetCurrency(c)\<close> returns \<open>c\<close>, and \<^verbatim>\<open>GetMerchantAccount\<close> after
  \<^verbatim>\<open>SetMerchantAccount(m)\<close> returns \<open>m\<close>.
\<close>

theorem currency_and_merchant_account_roundtrip:
  "GetCurrency (SetCurrency c a) = c \<and> GetMerchantAccount (SetMerchantAccount m a) = m"
  by (simp add: GetCurrency_def SetCurrency_def GetMerchantAccount_def SetMerchantAccount_def)

text \<open>
  C5. For every environment, username and password, the client of \<^verbatim>\<open>New\<close> holds them
  in its credentials and has the currency EUR; the client of \<^verbatim>\<open>NewWithHMAC\<close> is the
  same client with the signing key stored in its credentials as well.
\<close>

theorem New_holds_credentials_and_default_currency:
  "Env (Credentials (New env u p)) = env
   \<and> Username (Credentials (New env u p)) = u
   \<and> Password (Credentials (New env u p)) = p
   \<and> Currency (New env u p) = ''EUR''
   \<and> NewWithHMAC env u p h = (New env u p)\<lparr>Credentials := (Credentials (New env u p))\<lparr>Hmac := h\<rparr>\<rparr>
   \<and> Hmac (Credentials (NewWithHMAC env u p h)) = h"
  by (simp add: New_def NewWithHMAC_def newCredentials_def newCredentialsWithHMAC_def
      DefaultCurrency_def)

text \<open>
  C6. For every service and request type, the URL of \<^verbatim>\<open>adyenURL\<close> is the base URL of
  the client's environment for the service at version v25, then a slash, the request
  type and a closing slash.
\<close>

theorem adyenURL_is_versioned_base_url:
  "adyenURL a service requestType =
     BaseURL (Env (Credentials a)) service ''v25'' @ ''/'' @ requestType @ ''/''"
  by (simp add: adyenURL_def APIVersion_def)




subsection \<open>Requests\<close>

text \<open>
  C2. \<^verbatim>\<open>execute\<close> hands a request to the HTTP client exactly when the entity could be
  marshalled and the URL parsed, and this one request is a POST to the backend URL whose
  body is the JSON of the entity, with the content type and the basic-auth header made
  from the stored username and password. \<^verbatim>\<open>executeHpp\<close> hands over a request exactly
  when its URL could be parsed, and this request is a GET to the HPP URL followed by
  \<open>?\<close> and the encoded values, with no body and no header at all.
\<close>

theorem execute_sends_POST_and_executeHpp_sends_GET:
  "calls_Do (snd (execute w a service method ent)) =
     (case json_Marshal w ent of
        Inl err \<Rightarrow> []
      | Inr body \<Rightarrow>
          (case url_Parse w (adyenURL a service method) of
             Some err \<Rightarrow> []
           | None \<Rightarrow>
               [(\<lparr>Timeout = 0\<rparr>,
                 \<lparr>Method = ''POST'', URL = adyenURL a service method,
                  Header = [''Content-Type'' \<mapsto> [''application/json''],
                            ''Authorization'' \<mapsto>
                              [''Basic '' @ base64 w (Username (Credentials a) @ '':''
                                 @ Password (Credentials a))]],
                  ReqBody = Some body\<rparr>)]))
   \<and> calls_Do (snd (executeHpp w a method' ent')) =
     (case url_Parse w (createHPPUrl a method' @ ''?'' @ Encode w (fst (query_Values w ent'))) of
        Some err \<Rightarrow> []
      | None \<Rightarrow>
          [(\<lparr>Timeout = 0\<rparr>,
            \<lparr>Method = ''GET'',
             URL = createHPPUrl a method' @ ''?'' @ Encode w (fst (query_Values w ent')),
             Header = Map.empty, ReqBody = None\<rparr>)])"
proof
  show "calls_Do (snd (execute w a service method ent)) =
     (case json_Marshal w ent of
        Inl err \<Rightarrow> []
      | Inr body \<Rightarrow>
          (case url_Parse w (adyenURL a service method) of
             Some err \<Rightarrow> []
           | None \<Rightarrow> [(\<lparr>Timeout = 0\<rparr>, execute_request w a service method body)]))"
    by (cases rule: execute_cases [of w ent a service "method"])
       (simp_all add: calls_Do_append calls_Do_log_Printf)
  show "calls_Do (snd (executeHpp w a method' ent')) =
     (case url_Parse w (executeHpp_url w a method' ent') of
        Some err \<Rightarrow> []
      | None \<Rightarrow> [(\<lparr>Timeout = 0\<rparr>, executeHpp_request w a method' ent')])"
    by (cases rule: executeHpp_cases [of w a "method'" "ent'"])
       (simp_all add: calls_Do_append calls_Do_log_Printf)
qed

theorem execute_sends_POST_and_executeHpp_sends_GET_witness:
  "calls_Do (snd (execute (sample_world 200) sample_client PaymentService ''authorise'' ''ref1''))
     = [(\<lparr>Timeout = 0\<rparr>,
         \<lparr>Method = ''POST'',
          URL = ''https://pal-test.adyen.com/pal/servlet/Payment/v25/authorise/'',
          Header = [''Content-Type'' \<mapsto> [''application/json''],
                    ''Authorization'' \<mapsto> [''Basic dW46cHc='']],
          ReqBody = Some ''{reference:ref1}''\<rparr>)]
   \<and> calls_Do (snd (executeHpp (sample_world 200) sample_client ''directory'' ''ref1''))
     = [(\<lparr>Timeout = 0\<rparr>,
         \<lparr>Method = ''GET'',
          URL = ''https://test.adyen.com/hpp/directory.shtml?reference=ref1'',
          Header = Map.empty, ReqBody = None\<rparr>)]"
  using execute_sends_POST_and_executeHpp_sends_GET
    [of "sample_world 200" sample_client PaymentService "''authorise''" "''ref1''"
        "''directory''" "''ref1''"]
  by (simp add: sample_world_def sample_client_def sample_env_def New_def newCredentials_def DefaultCurrency_def
      adyenURL_def createHPPUrl_def APIVersion_def PaymentService_def Encode_def)

text \<open>
  C7. Two clients with the same credentials and the same logger, whatever their
  currencies and merchant accounts, give the same result and the same events in
  \<^verbatim>\<open>execute\<close> and in \<^verbatim>\<open>executeHpp\<close>: the same URL, the same body, the same query
  string.
\<close>

theorem stored_defaults_are_not_injected:
  assumes "Credentials a = Credentials b" and "Logger a = Logger b"
  shows "execute w a service method ent = execute w b service method ent
         \<and> executeHpp w a method' ent' = executeHpp w b method' ent'"
  unfolding execute_def executeHpp_def adyenURL_def createHPPUrl_def assms
  by (rule conjI; rule refl)

theorem stored_defaults_are_not_injected_witness:
  "Credentials (SetMerchantAccount ''Merchant'' (SetCurrency ''USD'' sample_client))
     = Credentials sample_client
   \<and> Logger (SetMerchantAccount ''Merchant'' (SetCurrency ''USD'' sample_client))
     = Logger sample_client
   \<and> Currency (SetMerchantAccount ''Merchant'' (SetCurrency ''USD'' sample_client))
     \<noteq> Currency sample_client
   \<and> execute (sample_world 200)
         (SetMerchantAccount ''Merchant'' (SetCurrency ''USD'' sample_client))
         PaymentService ''authorise'' ''ref1''
     = execute (sample_world 200) sample_client PaymentService ''authorise'' ''ref1''
   \<and> executeHpp (sample_world 200)
         (SetMerchantAccount ''Merchant'' (SetCurrency ''USD'' sample_client))
         ''directory'' ''ref1''
     = executeHpp (sample_world 200) sample_client ''directory'' ''ref1''"
proof -
  have c: "Credentials (SetMerchantAccount ''Merchant'' (SetCurrency ''USD'' sample_client))
             = Credentials sample_client"
    and l: "Logger (SetMerchantAccount ''Merchant'' (SetCurrency ''USD'' sample_client))
             = Logger sample_client"
    by (simp_all add: SetMerchantAccount_def SetCurrency_def)
  have "Currency (SetMerchantAccount ''Merchant'' (SetCurrency ''USD'' sample_client))
          \<noteq> Currency sample_client"
    by (simp add: SetMerchantAccount_def SetCurrency_def sample_client_def New_def
        DefaultCurrency_def)
  with c l
    stored_defaults_are_not_injected
      [OF c l, of "sample_world 200" PaymentService "''authorise''" "''ref1''"
         "''directory''" "''ref1''"]
  show ?thesis
    by blast
qed

subsection \<open>Credentials\<close>

text \<open>
  C8. Each of \<^verbatim>\<open>AttachLogger\<close>, \<^verbatim>\<open>GetCurrency\<close>, \<^verbatim>\<open>SetCurrency\<close>,
  \<^verbatim>\<open>GetMerchantAccount\<close>, \<^verbatim>\<open>SetMerchantAccount\<close>, \<^verbatim>\<open>execute\<close> and \<^verbatim>\<open>executeHpp\<close>
  leaves the credentials of the client as they were, and after any sequence of them on a
  client made by \<^verbatim>\<open>New\<close> or \<^verbatim>\<open>NewWithHMAC\<close> the credentials are the ones the
  constructor stored.
\<close>

theorem credentials_unchanged_by_operations:
  "Credentials (fst (perform w x a)) = Credentials a
   \<and> Credentials (fst (run w xs (New env u p))) = newCredentials env u p
   \<and> Credentials (fst (run w xs (NewWithHMAC env u p h))) = newCredentialsWithHMAC env u p h"
proof -
  have run_Credentials: "Credentials (fst (run w xs a)) = Credentials a" for a
  proof (induction xs arbitrary: a)
    case Nil
    show ?case by simp
  next
    case (Cons x xs)
    have "Credentials (fst (run w xs (fst (perform w x a)))) = Credentials (fst (perform w x a))"
      by (rule Cons.IH)
    then show ?case
      by (simp add: perform_Credentials split: prod.splits)
         (metis fst_conv perform_Credentials)
  qed
  show ?thesis
    by (simp add: perform_Credentials run_Credentials New_def NewWithHMAC_def)
qed

subsection \<open>Errors\<close>



text \<open>
  C10, as stated: every entity that fails to encode gives a GET request to the HPP URL
  with an empty query string. It does not when \<^verbatim>\<open>query.Values\<close> returns values
  together with its error: in the world below the call for the entity fails, no error
  is returned, and the request goes to a URL whose query string is not empty.
\<close>

theorem executeHpp_failed_encoding_query_not_empty_counterexample:
  "snd (query_Values partial_world ''ref1'')
     = Some (GoError ''query: encoder of a field failed'')
   \<and> snd (fst (executeHpp partial_world sample_client ''directory'' ''ref1'')) = None
   \<and> map (URL \<circ> snd) (calls_Do (snd (executeHpp partial_world sample_client ''directory'' ''ref1'')))
     = [''https://test.adyen.com/hpp/directory.shtml?merchantReference=ref1'']
   \<and> map (URL \<circ> snd) (calls_Do (snd (executeHpp partial_world sample_client ''directory'' ''ref1'')))
     \<noteq> [createHPPUrl sample_client ''directory'' @ ''?'']"
  by (simp add: executeHpp_def http_NewRequest_def Let_def log_Printf_def partial_world_def
      sample_world_def sample_client_def sample_env_def New_def newCredentials_def
      createHPPUrl_def Encode_def)

text \<open>
  C10, amended: when \<^verbatim>\<open>query.Values\<close> returns an error for the entity, \<^verbatim>\<open>executeHpp\<close>
  does what it does in a world where the same values come back without the error: the
  error is not returned and not looked at. If the URL can be parsed, the one GET request
  goes to the HPP URL followed by \<open>?\<close> and the encoding of the values that came with
  the error; when these values are nil, the query string is empty.
\<close>

theorem executeHpp_discards_encoding_error:
  assumes "query_Values w ent = (v, Some err)"
  shows "executeHpp w a method ent = executeHpp (w\<lparr>query_Values := \<lambda>x. (v, None)\<rparr>) a method ent
         \<and> (url_Parse w (createHPPUrl a method @ ''?'' @ Encode w v) = None \<longrightarrow>
              calls_Do (snd (executeHpp w a method ent)) =
                [(\<lparr>Timeout = 0\<rparr>,
                  \<lparr>Method = ''GET'', URL = createHPPUrl a method @ ''?'' @ Encode w v,
                   Header = Map.empty, ReqBody = None\<rparr>)])
         \<and> (v = None \<longrightarrow> url_Parse w (createHPPUrl a method @ ''?'') = None \<longrightarrow>
              calls_Do (snd (executeHpp w a method ent)) =
                [(\<lparr>Timeout = 0\<rparr>,
                  \<lparr>Method = ''GET'', URL = createHPPUrl a method @ ''?'',
                   Header = Map.empty, ReqBody = None\<rparr>)])"
proof (intro conjI impI)
  show "executeHpp w a method ent = executeHpp (w\<lparr>query_Values := \<lambda>x. (v, None)\<rparr>) a method ent"
    by (rule executeHpp_query_Values_cong [symmetric]) (simp_all add: assms)
next
  assume "url_Parse w (createHPPUrl a method @ ''?'' @ Encode w v) = None"
  then show "calls_Do (snd (executeHpp w a method ent)) =
                [(\<lparr>Timeout = 0\<rparr>,
                  \<lparr>Method = ''GET'', URL = createHPPUrl a method @ ''?'' @ Encode w v,
                   Header = Map.empty, ReqBody = None\<rparr>)]"
    using assms
    by (cases rule: executeHpp_cases [of w a "method" ent])
       (simp_all add: calls_Do_append calls_Do_log_Printf)
next
  assume "v = None" and "url_Parse w (createHPPUrl a method @ ''?'') = None"
  then show "calls_Do (snd (executeHpp w a method ent)) =
                [(\<lparr>Timeout = 0\<rparr>,
                  \<lparr>Method = ''GET'', URL = createHPPUrl a method @ ''?'',
                   Header = Map.empty, ReqBody = None\<rparr>)]"
    using assms
    by (cases rule: executeHpp_cases [of w a "method" ent])
       (simp_all add: calls_Do_append calls_Do_log_Printf Encode_def)
qed

theorem executeHpp_discards_encoding_error_witness:
  "query_Values (sample_world 200) ''chan''
     = (None, Some (GoError ''query: Values() expects struct input''))
   \<and> url_Parse (sample_world 200) (createHPPUrl sample_client ''directory'' @ ''?'') = None
   \<and> calls_Do (snd (executeHpp (sample_world 200) sample_client ''directory'' ''chan''))
     = [(\<lparr>Timeout = 0\<rparr>,
         \<lparr>Method = ''GET'', URL = ''https://test.adyen.com/hpp/directory.shtml?'',
          Header = Map.empty, ReqBody = None\<rparr>)]"
proof -
  have q: "query_Values (sample_world 200) ''chan''
             = (None, Some (GoError ''query: Values() expects struct input''))"
    by (simp add: sample_world_def)
  have u: "url_Parse (sample_world 200) (createHPPUrl sample_client ''directory'' @ ''?'') = None"
    by (simp add: sample_world_def sample_client_def sample_env_def New_def newCredentials_def
        createHPPUrl_def)
  from executeHpp_discards_encoding_error [OF q, of sample_client "''directory''"] u
  have "calls_Do (snd (executeHpp (sample_world 200) sample_client ''directory'' ''chan''))
     = [(\<lparr>Timeout = 0\<rparr>,
         \<lparr>Method = ''GET'', URL = createHPPUrl sample_client ''directory'' @ ''?'',
          Header = Map.empty, ReqBody = None\<rparr>)]"
    by blast
  with q u show ?thesis
    by (simp add: sample_client_def sample_env_def New_def newCredentials_def createHPPUrl_def)
qed

end
